theory Spec2Isabelle
  imports Complex_Main "HOL-Library.Multiset"
begin

section \<open>Data model\<close>

text \<open>
  The value under validation is the source's \<^verbatim>\<open>data: any\<close>. The model has the JSON values
  and the two values \<^verbatim>\<open>null\<close> and \<^verbatim>\<open>undefined\<close>. An object is the list of its own
  enumerable entries in the order \<^verbatim>\<open>Object.keys\<close> enumerates them; an array is the list of
  its elements. The payload of a number is never inspected by the validators.
\<close>

datatype jsvalue =
    JString string
  | JNumber real
  | JBoolean bool
  | JNull
  | JUndefined
  | JObject "(string \<times> jsvalue) list"
  | JArray "jsvalue list"

text \<open>
  The five schema types of the source. \<^verbatim>\<open>enum?\<close> and \<^verbatim>\<open>required?\<close> are optional fields;
  \<^verbatim>\<open>properties\<close> is a record, kept as the list of its own entries.
\<close>

datatype schema =
    StringSchema "string list option"
  | NumberSchema
  | BooleanSchema
  | ObjectSchema "(string \<times> schema) list" "string list option"
  | ArraySchema schema

text \<open>
  Every \<^verbatim>\<open>throw new Error(...)\<close> of the source is one constructor, carrying the values its
  message interpolates:
  \<^item> \<open>TypeMismatch a t\<close>: \<^verbatim>\<open>Data type ${typeof data} does not match schema type ${schema.type}\<close>
    (lines 65, 87, 97, 106, 112);
  \<^item> \<open>MissingRequiredField req\<close>: \<^verbatim>\<open>Data object does not include all required object properties, must include ${requiredProps}\<close>
    (line 71);
  \<^item> \<open>UnknownProperty key\<close>: \<^verbatim>\<open>Key ${key} in data not found in schema properties ${props}\<close>
    (line 77);
  \<^item> \<open>EnumViolation\<close>: \<^verbatim>\<open>String not in enum\<close> (line 99).

  \<open>HostTypeError\<close> is the \<^verbatim>\<open>TypeError\<close> that the runtime itself raises: when
  \<^verbatim>\<open>Object.keys\<close> is applied to \<^verbatim>\<open>null\<close> or \<^verbatim>\<open>undefined\<close>, and when the message of
  line 77 converts to a string a \<^verbatim>\<open>properties\<close> record that cannot be converted. No line
  of the source throws it.
\<close>

datatype error =
    TypeMismatch string string
  | MissingRequiredField "string list"
  | UnknownProperty string
  | EnumViolation
  | HostTypeError

type_synonym outcome = "error + unit"

section \<open>The runtime operations the validators use\<close>

fun typeof :: "jsvalue \<Rightarrow> string" where
  "typeof (JString s) = ''string''"
| "typeof (JNumber n) = ''number''"
| "typeof (JBoolean b) = ''boolean''"
| "typeof JNull = ''object''"
| "typeof JUndefined = ''undefined''"
| "typeof (JObject kvs) = ''object''"
| "typeof (JArray xs) = ''object''"

fun isArray :: "jsvalue \<Rightarrow> bool" where
  "isArray (JArray xs) = True"
| "isArray v = False"

fun schema_type :: "schema \<Rightarrow> string" where
  "schema_type (StringSchema e) = ''string''"
| "schema_type NumberSchema = ''number''"
| "schema_type BooleanSchema = ''boolean''"
| "schema_type (ObjectSchema props req) = ''object''"
| "schema_type (ArraySchema its) = ''array''"

fun schema_enum :: "schema \<Rightarrow> string list option" where
  "schema_enum (StringSchema e) = e"
| "schema_enum s = None"

text \<open>
  The fields \<^verbatim>\<open>properties\<close>, \<^verbatim>\<open>required\<close> and \<^verbatim>\<open>items\<close> of a schema. A validator reads them
  behind its test of \<^verbatim>\<open>schema.type\<close> only, so \<^verbatim>\<open>properties\<close> is never read on a schema
  that has none; an absent \<^verbatim>\<open>required\<close>, \<^verbatim>\<open>enum\<close> or \<^verbatim>\<open>items\<close> reads as \<^verbatim>\<open>undefined\<close>, the
  value \<open>None\<close>.
\<close>

fun properties :: "schema \<Rightarrow> (string \<times> schema) list" where
  "properties (ObjectSchema props req) = props"
| "properties s = []"

fun required :: "schema \<Rightarrow> string list option" where
  "required (ObjectSchema props req) = req"
| "required s = None"

fun items :: "schema \<Rightarrow> schema option" where
  "items (ArraySchema its) = Some its"
| "items s = None"

text \<open>The decimal rendering of an array index, which is the key under which
  \<^verbatim>\<open>Object.keys\<close> lists an array element.\<close>

definition digit_char :: "nat \<Rightarrow> char" where
  "digit_char d = ''0123456789'' ! d"

fun index_key :: "nat \<Rightarrow> string" where
  "index_key n =
     (if n < 10 then [digit_char n] else index_key (n div 10) @ [digit_char (n mod 10)])"

declare index_key.simps [simp del]

text \<open>
  The own enumerable entries of a value, in enumeration order: the entries of an object,
  the index-keyed elements of an array, the index-keyed characters of a string.
\<close>

fun own_entries :: "jsvalue \<Rightarrow> (string \<times> jsvalue) list" where
  "own_entries (JObject kvs) = kvs"
| "own_entries (JArray xs) = zip (map index_key [0..<length xs]) xs"
| "own_entries (JString s) = zip (map index_key [0..<length s]) (map (\<lambda>c. JString [c]) s)"
| "own_entries v = []"

text \<open>\<^verbatim>\<open>Object.keys(data)\<close>: throws a \<^verbatim>\<open>TypeError\<close> on \<^verbatim>\<open>null\<close> and \<^verbatim>\<open>undefined\<close>
  (the result \<open>None\<close>).\<close>

fun Object_keys :: "jsvalue \<Rightarrow> string list option" where
  "Object_keys JNull = None"
| "Object_keys JUndefined = None"
| "Object_keys v = Some (map fst (own_entries v))"

text \<open>\<^verbatim>\<open>data[key]\<close>: the entry's value, \<^verbatim>\<open>undefined\<close> when there is none.\<close>

definition get_member :: "jsvalue \<Rightarrow> string \<Rightarrow> jsvalue" where
  "get_member data key =
     (case map_of (own_entries data) key of Some v \<Rightarrow> v | None \<Rightarrow> JUndefined)"

text \<open>
  \<^verbatim>\<open>props[key]\<close> on the \<^verbatim>\<open>properties\<close> record of a schema. A schema is a plain object, so
  a key that is not an own entry is looked up in \<^verbatim>\<open>Object.prototype\<close>, whose members are
  the twelve names below; each of them yields a truthy value that is no schema and has no
  \<^verbatim>\<open>type\<close> field. Any other key yields \<^verbatim>\<open>undefined\<close>.
\<close>

definition Object_prototype_keys :: "string list" where
  "Object_prototype_keys =
     [''constructor'', ''__defineGetter__'', ''__defineSetter__'', ''hasOwnProperty'',
      ''__lookupGetter__'', ''__lookupSetter__'', ''isPrototypeOf'', ''propertyIsEnumerable'',
      ''toString'', ''valueOf'', ''__proto__'', ''toLocaleString'']"

datatype prop_lookup = OwnSchema schema | Inherited | Undefined

definition get_prop :: "(string \<times> schema) list \<Rightarrow> string \<Rightarrow> prop_lookup" where
  "get_prop props key =
     (case map_of props key of
        Some schemaType \<Rightarrow> OwnSchema schemaType
      | None \<Rightarrow> if key \<in> set Object_prototype_keys then Inherited else Undefined)"

text \<open>
  \<^verbatim>\<open>${props}\<close> in the template of line 77: the conversion of the \<^verbatim>\<open>properties\<close> record to
  a string. It calls the record's \<^verbatim>\<open>toString\<close> member, which is
  \<^verbatim>\<open>Object.prototype.toString\<close> and yields \<^verbatim>\<open>[object Object]\<close>, unless the record has an
  own entry of that name: the entry is a schema, not a function, \<^verbatim>\<open>valueOf\<close> yields no
  primitive value either, and the conversion raises a \<^verbatim>\<open>TypeError\<close> (the result \<open>None\<close>).
\<close>

definition String_props :: "(string \<times> schema) list \<Rightarrow> string option" where
  "String_props props =
     (if map_of props ''toString'' \<noteq> None then None else Some ''[object Object]'')"

text \<open>
  Line 77,
  \<^verbatim>\<open>throw new Error(`Key ${key} in data not found in schema properties ${props}`)\<close>:
  the message is built first, so a failing conversion of \<^verbatim>\<open>props\<close> is what is thrown.
\<close>

definition unknown_key_error :: "(string \<times> schema) list \<Rightarrow> string \<Rightarrow> outcome" where
  "unknown_key_error props key =
     (case String_props props of
        None \<Rightarrow> Inl HostTypeError
      | Some rendered \<Rightarrow> Inl (UnknownProperty key))"

text \<open>The elements of an array, for \<^verbatim>\<open>data.forEach\<close> (line 88).\<close>

fun elements :: "jsvalue \<Rightarrow> jsvalue list" where
  "elements (JArray xs) = xs"
| "elements v = []"

text \<open>\<^verbatim>\<open>schema.enum.includes(data)\<close> (line 99): no string equals a value of another type.\<close>

fun enum_includes :: "string list \<Rightarrow> jsvalue \<Rightarrow> bool" where
  "enum_includes enum_list (JString s) = (s \<in> set enum_list)"
| "enum_includes enum_list v = False"

text \<open>\<^verbatim>\<open>target.every(v => arr.includes(v))\<close> (line 69).\<close>

definition isInEvery :: "string list \<Rightarrow> string list \<Rightarrow> bool" where
  "isInEvery arr target = list_all (\<lambda>v. v \<in> set arr) target"

text \<open>\<^verbatim>\<open>xs.forEach(f)\<close> with a callback that may throw: the first throw ends the loop and
  is the loop's outcome.\<close>

fun forEach :: "'a list \<Rightarrow> ('a \<Rightarrow> outcome) \<Rightarrow> outcome" where
  "forEach [] f = Inr ()"
| "forEach (x # xs) f = (case f x of Inl e \<Rightarrow> Inl e | Inr u \<Rightarrow> forEach xs f)"

lemma forEach_cong [fundef_cong]:
  "xs = ys \<Longrightarrow> (\<And>x. x \<in> set ys \<Longrightarrow> f x = g x) \<Longrightarrow> forEach xs f = forEach ys g"
  by (induction ys arbitrary: xs) (auto split: sum.splits)

section \<open>The validators\<close>

datatype validator =
  arrayValidator | booleanValidator | numberValidator | stringValidator | objValidator

text \<open>\<^verbatim>\<open>SchemaFactory.getSchemaInstance\<close> (lines 120-133): the object validator is the
  \<^verbatim>\<open>default\<close> branch of the switch.\<close>

definition getSchemaInstance :: "schema \<Rightarrow> validator" where
  "getSchemaInstance schema =
     (if schema_type schema = ''array'' then arrayValidator
      else if schema_type schema = ''boolean'' then booleanValidator
      else if schema_type schema = ''number'' then numberValidator
      else if schema_type schema = ''string'' then stringValidator
      else objValidator)"

lemma size_get_prop:
  "get_prop props key = OwnSchema schemaType \<Longrightarrow> size schemaType < size (ObjectSchema props req)"
proof -
  have "map_of props key = Some s \<Longrightarrow> size s < Suc (size_list (size_prod (\<lambda>_. 0) size) props)"
    for s
    by (induction props) (auto split: if_splits)
  then show "get_prop props key = OwnSchema schemaType \<Longrightarrow> ?thesis"
    by (auto simp: get_prop_def split: option.splits if_splits)
qed

lemma size_properties:
  "schema_type schema = ''object'' \<Longrightarrow> get_prop (properties schema) key = OwnSchema schemaType
     \<Longrightarrow> size schemaType < size schema"
  by (cases schema) (auto dest: size_get_prop simp del: schema.size)

lemma size_items:
  "schema_type schema = ''array'' \<Longrightarrow> items schema = Some its \<Longrightarrow> size its < size schema"
  by (cases schema) auto

text \<open>
  \<^verbatim>\<open>SchemaService.validate\<close> (lines 140-142) and the \<^verbatim>\<open>validate\<close> method of the five
  validator classes (lines 63-114), mutually recursive as in the source.

  In \<^verbatim>\<open>objValidator\<close>, a key that \<^verbatim>\<open>props[key]\<close> finds only in \<^verbatim>\<open>Object.prototype\<close> passes
  the test \<^verbatim>\<open>if (schemaType)\<close>; the recursive call then receives a value without a
  \<^verbatim>\<open>type\<close> field, the factory's \<^verbatim>\<open>default\<close> branch selects \<^verbatim>\<open>objValidator\<close>, and line 65
  throws because \<^verbatim>\<open>schema.type !== 'object'\<close>.
\<close>

function SchemaService_validate :: "jsvalue \<Rightarrow> schema \<Rightarrow> outcome"
  and Validator_validate :: "validator \<Rightarrow> jsvalue \<Rightarrow> schema \<Rightarrow> outcome"
where
  "SchemaService_validate data schema =
     Validator_validate (getSchemaInstance schema) data schema"
| "Validator_validate objValidator data schema =
     (if typeof data \<noteq> ''object'' \<or> schema_type schema \<noteq> ''object''
      then Inl (TypeMismatch (typeof data) (schema_type schema))
      else
        (case Object_keys data of
           None \<Rightarrow> Inl HostTypeError
         | Some dataKeys \<Rightarrow>
             if required schema \<noteq> None \<and> length (the (required schema)) \<noteq> 0
                \<and> \<not> isInEvery dataKeys (the (required schema))
             then Inl (MissingRequiredField (the (required schema)))
             else forEach dataKeys (\<lambda>key.
               (case get_prop (properties schema) key of
                  OwnSchema schemaType \<Rightarrow>
                    SchemaService_validate (get_member data key) schemaType
                | Inherited \<Rightarrow>
                    Inl (TypeMismatch (typeof (get_member data key)) ''undefined'')
                | Undefined \<Rightarrow> unknown_key_error (properties schema) key))))"
| "Validator_validate arrayValidator data schema =
     (if \<not> isArray data \<or> schema_type schema \<noteq> ''array''
      then Inl (TypeMismatch (typeof data) (schema_type schema))
      else forEach (elements data) (\<lambda>datum.
        (case items schema of
           Some itemSchema \<Rightarrow> SchemaService_validate datum itemSchema
         | None \<Rightarrow> Inl HostTypeError)))"
| "Validator_validate stringValidator data schema =
     (if typeof data \<noteq> ''string'' \<or> schema_type schema \<noteq> ''string''
         \<or> typeof data \<noteq> schema_type schema
      then Inl (TypeMismatch (typeof data) (schema_type schema))
      else
        (case schema_enum schema of
           Some enum_list \<Rightarrow> if \<not> enum_includes enum_list data then Inl EnumViolation else Inr ()
         | None \<Rightarrow> Inr ()))"
| "Validator_validate booleanValidator data schema =
     (if typeof data \<noteq> ''boolean'' \<or> typeof data \<noteq> schema_type schema
      then Inl (TypeMismatch (typeof data) (schema_type schema))
      else Inr ())"
| "Validator_validate numberValidator data schema =
     (if typeof data \<noteq> ''number'' \<or> typeof data \<noteq> schema_type schema
      then Inl (TypeMismatch (typeof data) (schema_type schema))
      else Inr ())"
  by pat_completeness auto

termination
proof (relation "measure (\<lambda>x. case x of Inl (d, s) \<Rightarrow> 2 * size s + 1
                                     | Inr (v, d, s) \<Rightarrow> 2 * size s)")
  show "wf (measure (\<lambda>x. case x of Inl (d, s) \<Rightarrow> 2 * size s + 1
                                  | Inr (v, d, s) \<Rightarrow> 2 * size s))"
    by simp
qed (auto dest: size_properties size_items)

text \<open>The entry point \<^verbatim>\<open>validateSchema\<close> (lines 152-154).\<close>

definition validateSchema :: "jsvalue \<Rightarrow> schema \<Rightarrow> outcome" where
  "validateSchema data schema = SchemaService_validate data schema"

declare SchemaService_validate.simps [simp del] Validator_validate.simps [simp del]

text \<open>The callback of \<^verbatim>\<open>dataKeys.forEach\<close> (lines 73-78), for the schema's \<^verbatim>\<open>properties\<close>
  and the value under validation.\<close>

definition validate_key :: "(string \<times> schema) list \<Rightarrow> jsvalue \<Rightarrow> string \<Rightarrow> outcome" where
  "validate_key props data key =
     (case get_prop props key of
        OwnSchema schemaType \<Rightarrow> validateSchema (get_member data key) schemaType
      | Inherited \<Rightarrow> Inl (TypeMismatch (typeof (get_member data key)) ''undefined'')
      | Undefined \<Rightarrow> unknown_key_error props key)"

section \<open>The engine with a bounded call stack\<close>

text \<open>
  The same engine with a budget \<open>fuel\<close> for the depth of nested calls of
  \<^verbatim>\<open>SchemaService.validate\<close>: a call that finds the budget used up does not return (the
  result \<open>None\<close>), and a loop whose callback does not return does not return either.
  The call on a member inherited from \<^verbatim>\<open>Object.prototype\<close> is a call too, and throws on
  line 65 if the budget lets it start. The three primitive validators make no call and
  are taken as they are.
\<close>

fun forEach_fuel :: "'a list \<Rightarrow> ('a \<Rightarrow> outcome option) \<Rightarrow> outcome option" where
  "forEach_fuel [] f = Some (Inr ())"
| "forEach_fuel (x # xs) f =
     (case f x of
        None \<Rightarrow> None
      | Some (Inl e) \<Rightarrow> Some (Inl e)
      | Some (Inr u) \<Rightarrow> forEach_fuel xs f)"

lemma forEach_fuel_cong [fundef_cong]:
  "xs = ys \<Longrightarrow> (\<And>x. x \<in> set ys \<Longrightarrow> f x = g x) \<Longrightarrow> forEach_fuel xs f = forEach_fuel ys g"
  by (induction ys arbitrary: xs) (auto split: option.splits sum.splits)

fun validate_fuel :: "nat \<Rightarrow> jsvalue \<Rightarrow> schema \<Rightarrow> outcome option" where
  "validate_fuel 0 data schema = None"
| "validate_fuel (Suc fuel) data schema =
     (case getSchemaInstance schema of
        objValidator \<Rightarrow>
          if typeof data \<noteq> ''object'' \<or> schema_type schema \<noteq> ''object''
          then Some (Inl (TypeMismatch (typeof data) (schema_type schema)))
          else
            (case Object_keys data of
               None \<Rightarrow> Some (Inl HostTypeError)
             | Some dataKeys \<Rightarrow>
                 if required schema \<noteq> None \<and> length (the (required schema)) \<noteq> 0
                    \<and> \<not> isInEvery dataKeys (the (required schema))
                 then Some (Inl (MissingRequiredField (the (required schema))))
                 else forEach_fuel dataKeys (\<lambda>key.
                   (case get_prop (properties schema) key of
                      OwnSchema schemaType \<Rightarrow>
                        validate_fuel fuel (get_member data key) schemaType
                    | Inherited \<Rightarrow>
                        if fuel = 0 then None
                        else Some (Inl (TypeMismatch (typeof (get_member data key)) ''undefined''))
                    | Undefined \<Rightarrow> Some (unknown_key_error (properties schema) key))))
      | arrayValidator \<Rightarrow>
          if \<not> isArray data \<or> schema_type schema \<noteq> ''array''
          then Some (Inl (TypeMismatch (typeof data) (schema_type schema)))
          else forEach_fuel (elements data) (\<lambda>datum.
            (case items schema of
               Some itemSchema \<Rightarrow> validate_fuel fuel datum itemSchema
             | None \<Rightarrow> Some (Inl HostTypeError)))
      | stringValidator \<Rightarrow> Some (Validator_validate stringValidator data schema)
      | booleanValidator \<Rightarrow> Some (Validator_validate booleanValidator data schema)
      | numberValidator \<Rightarrow> Some (Validator_validate numberValidator data schema))"

text \<open>The nesting depth of a schema, a finite tree.\<close>

fun schema_depth :: "schema \<Rightarrow> nat" where
  "schema_depth (ObjectSchema props req) =
     Suc (fold max (map (\<lambda>(key, schemaType). schema_depth schemaType) props) 0)"
| "schema_depth (ArraySchema itemSchema) = Suc (schema_depth itemSchema)"
| "schema_depth s = 0"

text \<open>The nesting depth of a value.\<close>

fun value_depth :: "jsvalue \<Rightarrow> nat" where
  "value_depth (JObject kvs) = Suc (fold max (map (\<lambda>(key, v). value_depth v) kvs) 0)"
| "value_depth (JArray xs) = Suc (fold max (map value_depth xs) 0)"
| "value_depth v = 0"

section \<open>Properties of the loop\<close>

text \<open>The loop succeeds when every call of the callback does; otherwise its outcome is
  the failure of the first call that fails.\<close>

lemma forEach_Inr_iff: "forEach xs f = Inr () \<longleftrightarrow> (\<forall>x\<in>set xs. f x = Inr ())"
  by (induction xs) (auto split: sum.splits)

lemma forEach_append:
  "forEach (xs @ ys) f = (case forEach xs f of Inl e \<Rightarrow> Inl e | Inr u \<Rightarrow> forEach ys f)"
  by (induction xs) (auto split: sum.splits)

lemma forEach_first_failure:
  assumes "i < length xs" and "\<forall>j<i. f (xs ! j) = Inr ()" and "f (xs ! i) = Inl e"
  shows "forEach xs f = Inl e"
proof -
  have split: "xs = take i xs @ xs ! i # drop (Suc i) xs"
    using assms(1) by (simp add: id_take_nth_drop)
  have "\<forall>x\<in>set (take i xs). f x = Inr ()"
    using assms(1,2) by (auto simp: in_set_conv_nth)
  then have "forEach (take i xs) f = Inr ()"
    by (simp add: forEach_Inr_iff)
  then have "forEach (take i xs @ xs ! i # drop (Suc i) xs) f = Inl e"
    using assms(3) by (simp add: forEach_append)
  with split show ?thesis by simp
qed

lemma forEach_failure_source:
  "forEach xs f = Inl e \<Longrightarrow> \<exists>i<length xs. f (xs ! i) = Inl e \<and> (\<forall>j<i. f (xs ! j) = Inr ())"
proof (induction xs)
  case Nil
  then show ?case by simp
next
  case (Cons x xs)
  show ?case
  proof (cases "f x")
    case (Inl e')
    with Cons.prems have "f ((x # xs) ! 0) = Inl e" by simp
    then show ?thesis by (intro exI [of _ 0]) simp
  next
    case (Inr u)
    with Cons obtain i where i: "i < length xs" "f (xs ! i) = Inl e" "\<forall>j<i. f (xs ! j) = Inr ()"
      by auto
    have "\<forall>j<Suc i. f ((x # xs) ! j) = Inr ()"
      using i(3) Inr by (auto simp: less_Suc_eq_0_disj)
    with i(1,2) show ?thesis by (intro exI [of _ "Suc i"]) simp
  qed
qed

lemma forEach_failure_member: "forEach xs f = Inl e \<Longrightarrow> \<exists>x\<in>set xs. f x = Inl e"
  by (induction xs) (auto split: sum.splits)

lemma forEach_fuel_total:
  "(\<And>x. x \<in> set xs \<Longrightarrow> g x = Some (f x)) \<Longrightarrow> forEach_fuel xs g = Some (forEach xs f)"
  by (induction xs) (auto split: sum.splits)

section \<open>What the engine does on each schema type\<close>

text \<open>The dispatch of \<^verbatim>\<open>SchemaService.validate\<close> followed by the selected validator, for
  each of the five schema types.\<close>

lemma validate_Object:
  "SchemaService_validate data (ObjectSchema props req) =
     (if typeof data \<noteq> ''object'' then Inl (TypeMismatch (typeof data) ''object'')
      else
        (case Object_keys data of
           None \<Rightarrow> Inl HostTypeError
         | Some dataKeys \<Rightarrow>
             if req \<noteq> None \<and> length (the req) \<noteq> 0 \<and> \<not> isInEvery dataKeys (the req)
             then Inl (MissingRequiredField (the req))
             else forEach dataKeys (\<lambda>key.
               (case get_prop props key of
                  OwnSchema schemaType \<Rightarrow>
                    SchemaService_validate (get_member data key) schemaType
                | Inherited \<Rightarrow>
                    Inl (TypeMismatch (typeof (get_member data key)) ''undefined'')
                | Undefined \<Rightarrow> unknown_key_error props key))))"
  by (simp add: SchemaService_validate.simps [of data "ObjectSchema props req"]
      Validator_validate.simps getSchemaInstance_def split: option.split
      cong: prop_lookup.case_cong)

lemma validate_Array:
  "SchemaService_validate data (ArraySchema itemSchema) =
     (if \<not> isArray data then Inl (TypeMismatch (typeof data) ''array'')
      else forEach (elements data) (\<lambda>datum. SchemaService_validate datum itemSchema))"
  by (simp add: SchemaService_validate.simps [of data "ArraySchema itemSchema"]
      Validator_validate.simps getSchemaInstance_def)

lemma validate_String:
  "SchemaService_validate data (StringSchema e) =
     (if typeof data \<noteq> ''string'' then Inl (TypeMismatch (typeof data) ''string'')
      else
        (case e of
           Some enum_list \<Rightarrow> if \<not> enum_includes enum_list data then Inl EnumViolation else Inr ()
         | None \<Rightarrow> Inr ()))"
  by (simp add: SchemaService_validate.simps [of data "StringSchema e"]
      Validator_validate.simps getSchemaInstance_def)

lemma validate_Number:
  "SchemaService_validate data NumberSchema =
     (if typeof data \<noteq> ''number'' then Inl (TypeMismatch (typeof data) ''number'') else Inr ())"
  by (simp add: SchemaService_validate.simps [of data NumberSchema]
      Validator_validate.simps getSchemaInstance_def)

lemma validate_Boolean:
  "SchemaService_validate data BooleanSchema =
     (if typeof data \<noteq> ''boolean'' then Inl (TypeMismatch (typeof data) ''boolean'') else Inr ())"
  by (simp add: SchemaService_validate.simps [of data BooleanSchema]
      Validator_validate.simps getSchemaInstance_def)

lemmas validate_simps =
  validateSchema_def validate_Object validate_Array validate_String validate_Number
  validate_Boolean

lemmas eval_simps =
  validate_simps isInEvery_def get_prop_def get_member_def Object_prototype_keys_def
  unknown_key_error_def String_props_def

lemma isInEvery_iff: "isInEvery arr target \<longleftrightarrow> set target \<subseteq> set arr"
  by (auto simp: isInEvery_def list_all_iff)

lemma get_prop_OwnSchema: "get_prop props key = OwnSchema st \<longleftrightarrow> map_of props key = Some st"
  by (simp add: get_prop_def split: option.splits)

text \<open>Line 77 never returns normally; it throws the error for the key when the message
  can be built, and the runtime's error otherwise.\<close>

lemma unknown_key_error_fails: "unknown_key_error props key \<noteq> Inr ()"
  by (simp add: unknown_key_error_def split: option.splits)

lemma unknown_key_error_cases:
  "unknown_key_error props key = Inl e \<Longrightarrow> e = HostTypeError \<or> e = UnknownProperty key"
  by (auto simp: unknown_key_error_def split: option.splits)

lemma unknown_key_error_plain:
  "map_of props ''toString'' = None \<Longrightarrow> unknown_key_error props key = Inl (UnknownProperty key)"
  by (simp add: unknown_key_error_def String_props_def)

text \<open>The object check on a mapping: the required-field test, then the loop over the keys.\<close>

lemma validate_mapping:
  "validateSchema (JObject kvs) (ObjectSchema props req) =
     (if req \<noteq> None \<and> the req \<noteq> [] \<and> \<not> set (the req) \<subseteq> fst ` set kvs
      then Inl (MissingRequiredField (the req))
      else forEach (map fst kvs) (validate_key props (JObject kvs)))"
  by (simp add: validate_simps isInEvery_iff validate_key_def [abs_def] cong: prop_lookup.case_cong)

section \<open>Vacuous success and the \<^verbatim>\<open>null\<close> value\<close>

text \<open>
  C10. An empty array validates against every Array schema, whatever the \<^verbatim>\<open>items\<close>
  schema is, and an empty mapping validates against every Object schema whose
  \<^verbatim>\<open>required\<close> list is absent or empty, whatever \<^verbatim>\<open>properties\<close> holds: no element and no
  key is there to be checked.
\<close>

theorem empty_value_validates:
  "validateSchema (JArray []) (ArraySchema itemSchema) = Inr ()
   \<and> validateSchema (JObject []) (ObjectSchema props None) = Inr ()
   \<and> validateSchema (JObject []) (ObjectSchema props (Some [])) = Inr ()"
  by (simp add: validate_simps)

text \<open>
  C9. \<^verbatim>\<open>typeof null\<close> is \<^verbatim>\<open>'object'\<close>, so \<^verbatim>\<open>null\<close> passes the type gate of the object
  validator: against any Object schema the outcome is not the gate's \<open>TypeMismatch\<close>.
  The key enumeration \<^verbatim>\<open>Object.keys(null)\<close> is reached and raises the runtime's own
  \<^verbatim>\<open>TypeError\<close>, which is none of the validation errors the source throws.
\<close>

theorem null_passes_object_gate:
  "typeof JNull = ''object''
   \<and> Object_keys JNull = None
   \<and> validateSchema JNull (ObjectSchema props req) = Inl HostTypeError
   \<and> (\<forall>a t. validateSchema JNull (ObjectSchema props req) \<noteq> Inl (TypeMismatch a t))"
  by (simp add: validate_simps)

section \<open>Type gates of the object and array validators\<close>

text \<open>
  C1. The specification states that every array fails the object check with \<open>TypeMismatch\<close>. The
  gate on line 65 tests \<^verbatim>\<open>typeof data !== 'object'\<close>, and \<^verbatim>\<open>typeof\<close> of an array is
  \<^verbatim>\<open>'object'\<close>: an array passes the gate and is then validated as the mapping from its
  indices to its elements. The empty array validates against an Object schema; a
  non-empty array fails with \<open>UnknownProperty\<close> for the key \<^verbatim>\<open>0\<close>, or validates when
  \<^verbatim>\<open>properties\<close> has an entry for each index.
\<close>

theorem array_passes_object_gate:
  "validateSchema (JArray []) (ObjectSchema [] None) = Inr ()
   \<and> validateSchema (JArray [JNumber 5]) (ObjectSchema [] None) = Inl (UnknownProperty ''0'')
   \<and> validateSchema (JArray [JNumber 5]) (ObjectSchema [(''0'', NumberSchema)] (Some [''0''])) = Inr ()"
  by (simp add: eval_simps index_key.simps digit_char_def)

text \<open>The array validator tests \<^verbatim>\<open>Array.isArray(data)\<close> (line 87), so the converse half holds:
  no mapping, and no other value that is not an array, passes the array check. The object
  gate does reject every value whose \<^verbatim>\<open>typeof\<close> is not \<^verbatim>\<open>'object'\<close>.\<close>

lemma array_check_rejects_non_arrays:
  "\<not> isArray data \<Longrightarrow>
     validateSchema data (ArraySchema itemSchema) = Inl (TypeMismatch (typeof data) ''array'')"
  by (simp add: validate_simps)

lemma object_check_rejects_other_types:
  "typeof data \<noteq> ''object'' \<Longrightarrow>
     validateSchema data (ObjectSchema props req) = Inl (TypeMismatch (typeof data) ''object'')"
  by (simp add: validate_simps)

section \<open>The string check and its enum\<close>

text \<open>
  C4. For a string value and a String schema with an \<^verbatim>\<open>enum\<close> list, validation fails with
  \<open>EnumViolation\<close> exactly when the value is not a member of the list, and succeeds
  exactly when it is. Membership is equality of strings, character by character. Two
  lists with the same members give the same outcome, in particular a list and a
  permutation of it. The outcome is never a \<open>TypeMismatch\<close>, which is a different error.
\<close>

theorem enum_membership:
  "(validateSchema (JString s) (StringSchema (Some es)) = Inl EnumViolation \<longleftrightarrow> s \<notin> set es)
   \<and> (validateSchema (JString s) (StringSchema (Some es)) = Inr () \<longleftrightarrow> s \<in> set es)
   \<and> (set es' = set es \<longrightarrow>
        validateSchema (JString s) (StringSchema (Some es'))
          = validateSchema (JString s) (StringSchema (Some es)))
   \<and> (mset es' = mset es \<longrightarrow>
        validateSchema (JString s) (StringSchema (Some es'))
          = validateSchema (JString s) (StringSchema (Some es)))
   \<and> (\<forall>a t. validateSchema (JString s) (StringSchema (Some es)) \<noteq> Inl (TypeMismatch a t))
   \<and> EnumViolation \<noteq> TypeMismatch a t"
  by (auto simp: validate_simps dest: mset_eq_setD)

theorem enum_membership_witness:
  "mset [''blue'', ''red'', ''green''] = mset [''red'', ''green'', ''blue'']
   \<and> set [''blue'', ''red'', ''green''] = set [''red'', ''green'', ''blue'']
   \<and> validateSchema (JString ''red'') (StringSchema (Some [''blue'', ''red'', ''green'']))
       = validateSchema (JString ''red'') (StringSchema (Some [''red'', ''green'', ''blue'']))
   \<and> validateSchema (JString ''red'') (StringSchema (Some [''red'', ''green'', ''blue''])) = Inr ()
   \<and> validateSchema (JString ''yellow'') (StringSchema (Some [''red'', ''green'', ''blue'']))
       = Inl EnumViolation
   \<and> validateSchema (JString ''Red'') (StringSchema (Some [''red'', ''green'', ''blue'']))
       = Inl EnumViolation"
proof -
  have perm: "mset [''blue'', ''red'', ''green''] = mset [''red'', ''green'', ''blue'']"
    by (simp add: add_mset_commute)
  have red: "''red'' \<in> set [''red'', ''green'', ''blue'']"
    and yellow: "''yellow'' \<notin> set [''red'', ''green'', ''blue'']"
    and Red: "''Red'' \<notin> set [''red'', ''green'', ''blue'']"
    by simp_all
  have same: "set [''blue'', ''red'', ''green''] = set [''red'', ''green'', ''blue'']"
    by auto
  show ?thesis
    using perm same red yellow Red
      enum_membership [of "''red''" "[''red'', ''green'', ''blue'']" "[''blue'', ''red'', ''green'']"]
      enum_membership [of "''yellow''" "[''red'', ''green'', ''blue'']"]
      enum_membership [of "''Red''" "[''red'', ''green'', ''blue'']"]
    by blast
qed

section \<open>The primitive checks\<close>

lemma typeof_string: "typeof data = ''string'' \<longleftrightarrow> (\<exists>s. data = JString s)"
  by (cases data) simp_all

text \<open>
  C5. The String, Number and Boolean checks decide by \<^verbatim>\<open>typeof\<close> alone: validation
  succeeds exactly when the runtime type of the value is the schema's type (and, for a
  String schema with an \<^verbatim>\<open>enum\<close>, the value is one of the listed strings); a value of
  any other runtime type fails with \<open>TypeMismatch\<close>. Nothing else is tested: every
  number, every boolean and, without an \<^verbatim>\<open>enum\<close>, every string validates.
\<close>

theorem primitive_checks:
  "(validateSchema data NumberSchema = Inr () \<longleftrightarrow> typeof data = ''number'')
   \<and> (validateSchema data BooleanSchema = Inr () \<longleftrightarrow> typeof data = ''boolean'')
   \<and> (validateSchema data (StringSchema None) = Inr () \<longleftrightarrow> typeof data = ''string'')
   \<and> (validateSchema data (StringSchema (Some es)) = Inr ()
        \<longleftrightarrow> typeof data = ''string'' \<and> (\<exists>s. data = JString s \<and> s \<in> set es))
   \<and> (typeof data \<noteq> ''number'' \<longrightarrow>
        validateSchema data NumberSchema = Inl (TypeMismatch (typeof data) ''number''))
   \<and> (typeof data \<noteq> ''boolean'' \<longrightarrow>
        validateSchema data BooleanSchema = Inl (TypeMismatch (typeof data) ''boolean''))
   \<and> (typeof data \<noteq> ''string'' \<longrightarrow>
        validateSchema data (StringSchema e) = Inl (TypeMismatch (typeof data) ''string''))
   \<and> validateSchema (JNumber n) NumberSchema = Inr ()
   \<and> validateSchema (JBoolean b) BooleanSchema = Inr ()
   \<and> validateSchema (JString s) (StringSchema None) = Inr ()"
  by (auto simp: validate_simps typeof_string split: if_splits)

theorem primitive_checks_witness:
  "typeof (JString ''5'') \<noteq> ''number''
   \<and> validateSchema (JString ''5'') NumberSchema = Inl (TypeMismatch ''string'' ''number'')
   \<and> typeof (JNumber 1) \<noteq> ''boolean''
   \<and> validateSchema (JNumber 1) BooleanSchema = Inl (TypeMismatch ''number'' ''boolean'')
   \<and> typeof (JNumber 5) \<noteq> ''string''
   \<and> validateSchema (JNumber 5) (StringSchema None) = Inl (TypeMismatch ''number'' ''string'')"
  using primitive_checks [of "JString ''5''"] primitive_checks [of "JNumber 1"]
    primitive_checks [of "JNumber 5" _ None]
  by simp

section \<open>The array check\<close>

text \<open>
  C6. For an array value and an Array schema the elements are validated against the
  \<^verbatim>\<open>items\<close> schema in sequence order. When every element validates the call succeeds.
  Otherwise the outcome is the error of the failing element of lowest index, unchanged,
  and it does not depend on the elements after it: they are not checked. Every error of
  the call is the error of such an element.
\<close>

theorem array_fail_fast:
  "validateSchema (JArray xs) (ArraySchema itemSchema)
     = forEach xs (\<lambda>datum. validateSchema datum itemSchema)
   \<and> ((\<forall>x\<in>set xs. validateSchema x itemSchema = Inr ()) \<longrightarrow>
        validateSchema (JArray xs) (ArraySchema itemSchema) = Inr ())
   \<and> (i < length xs \<and> validateSchema (xs ! i) itemSchema = Inl e
        \<and> (\<forall>j<i. validateSchema (xs ! j) itemSchema = Inr ()) \<longrightarrow>
        validateSchema (JArray xs) (ArraySchema itemSchema) = Inl e
        \<and> (\<forall>ys. validateSchema (JArray (take (Suc i) xs @ ys)) (ArraySchema itemSchema) = Inl e))
   \<and> (validateSchema (JArray xs) (ArraySchema itemSchema) = Inl e' \<longrightarrow>
        (\<exists>k<length xs. validateSchema (xs ! k) itemSchema = Inl e'
           \<and> (\<forall>j<k. validateSchema (xs ! j) itemSchema = Inr ())))"
proof -
  let ?f = "\<lambda>datum. validateSchema datum itemSchema"
  have loop: "validateSchema (JArray zs) (ArraySchema itemSchema) = forEach zs ?f" for zs
    by (simp add: validate_simps)
  have ok: "forEach xs ?f = Inr ()" if "\<forall>x\<in>set xs. ?f x = Inr ()"
    using that by (simp add: forEach_Inr_iff)
  have bad: "forEach xs ?f = Inl e \<and> (\<forall>ys. forEach (take (Suc i) xs @ ys) ?f = Inl e)"
    if i: "i < length xs" and e: "?f (xs ! i) = Inl e" and before: "\<forall>j<i. ?f (xs ! j) = Inr ()"
  proof
    show "forEach xs ?f = Inl e"
      using i before e by (rule forEach_first_failure)
    show "\<forall>ys. forEach (take (Suc i) xs @ ys) ?f = Inl e"
    proof
      fix ys
      have "i < length (take (Suc i) xs @ ys)" using i by simp
      moreover have "\<forall>j<i. ?f ((take (Suc i) xs @ ys) ! j) = Inr ()"
        using i before by (simp add: nth_append)
      moreover have "?f ((take (Suc i) xs @ ys) ! i) = Inl e"
        using i e by (simp add: nth_append)
      ultimately show "forEach (take (Suc i) xs @ ys) ?f = Inl e"
        by (rule forEach_first_failure)
    qed
  qed
  have source: "\<exists>k<length xs. ?f (xs ! k) = Inl e' \<and> (\<forall>j<k. ?f (xs ! j) = Inr ())"
    if "forEach xs ?f = Inl e'"
    using that by (rule forEach_failure_source)
  show ?thesis
    unfolding loop using ok bad source by blast
qed

theorem array_fail_fast_witness:
  "validateSchema (JArray [JObject [(''a'', JNumber 5)], JObject [(''a'', JString ''hello'')],
       JObject [(''b'', JNumber 1)]])
     (ArraySchema (ObjectSchema [(''a'', NumberSchema)] None))
     = Inl (TypeMismatch ''string'' ''number'')
   \<and> validateSchema (JArray [JObject [(''a'', JNumber 5)], JObject [(''a'', JString ''hello'')]])
     (ArraySchema (ObjectSchema [(''a'', NumberSchema)] None))
     = Inl (TypeMismatch ''string'' ''number'')
   \<and> validateSchema (JArray [JObject [(''a'', JNumber 5)], JObject [(''a'', JNumber 2)],
       JObject [(''a'', JNumber 10)]])
     (ArraySchema (ObjectSchema [(''a'', NumberSchema)] None)) = Inr ()
   \<and> (\<exists>k<3. validateSchema
          ([JObject [(''a'', JNumber 5)], JObject [(''a'', JString ''hello'')],
            JObject [(''b'', JNumber 1)]] ! k)
          (ObjectSchema [(''a'', NumberSchema)] None) = Inl (TypeMismatch ''string'' ''number''))"
proof -
  let ?items = "ObjectSchema [(''a'', NumberSchema)] None"
  let ?xs = "[JObject [(''a'', JNumber 5)], JObject [(''a'', JString ''hello'')],
    JObject [(''b'', JNumber 1)]]"
  let ?ys = "[JObject [(''a'', JNumber 5)], JObject [(''a'', JNumber 2)],
    JObject [(''a'', JNumber 10)]]"
  have i: "(1::nat) < length ?xs" by simp
  have e: "validateSchema (?xs ! 1) ?items = Inl (TypeMismatch ''string'' ''number'')"
    by (simp add: eval_simps)
  have before: "\<forall>j<1. validateSchema (?xs ! j) ?items = Inr ()"
    by (simp add: eval_simps)
  have all: "\<forall>x\<in>set ?ys. validateSchema x ?items = Inr ()"
    by (simp add: eval_simps)
  have cut: "take (Suc 1) ?xs @ [] = [JObject [(''a'', JNumber 5)], JObject [(''a'', JString ''hello'')]]"
    by simp
  have len: "length ?xs = 3" by simp
  note fact = array_fail_fast [of ?xs ?items 1 "TypeMismatch ''string'' ''number''"
      "TypeMismatch ''string'' ''number''"]
  from fact i e before
  have whole: "validateSchema (JArray ?xs) (ArraySchema ?items) = Inl (TypeMismatch ''string'' ''number'')"
    and prefix: "validateSchema (JArray (take (Suc 1) ?xs @ [])) (ArraySchema ?items)
      = Inl (TypeMismatch ''string'' ''number'')"
    by blast+
  from fact whole
  have source: "\<exists>k<length ?xs. validateSchema (?xs ! k) ?items = Inl (TypeMismatch ''string'' ''number'')"
    by blast
  from array_fail_fast [of ?ys ?items] all
  have valid: "validateSchema (JArray ?ys) (ArraySchema ?items) = Inr ()"
    by blast
  from whole prefix valid source show ?thesis
    unfolding cut len by simp
qed

section \<open>The object check: required fields\<close>

text \<open>
  C2. The specification states an equivalence: validation fails with \<open>MissingRequiredField\<close> if and
  only if a required name is not a key of the value. One direction fails, because the
  failure of a nested value is propagated unchanged: an object all of whose required
  names are present fails with \<open>MissingRequiredField\<close> when one of its members is an
  object that lacks a name its own schema requires.
\<close>

theorem required_check_counterexample:
  "validateSchema (JObject [(''a'', JObject [])])
     (ObjectSchema [(''a'', ObjectSchema [] (Some [''a'']))] (Some [''a'']))
     = Inl (MissingRequiredField [''a''])
   \<and> set [''a''] \<subseteq> fst ` set [(''a'', JObject [])]"
  by (simp add: eval_simps)

text \<open>
  C2, as the code has it. For a mapping value and an Object schema whose \<^verbatim>\<open>required\<close>
  list is present and non-empty: when a required name is not a key of the value,
  validation fails with \<open>MissingRequiredField\<close>; the test is on the value's keys and
  precedes every lookup in \<^verbatim>\<open>properties\<close>, so it holds whatever \<^verbatim>\<open>properties\<close> is, also
  when the name is in neither. When every required name is a key, a
  \<open>MissingRequiredField\<close> outcome is the failure of the member at one of the value's keys
  against its sub-schema, propagated unchanged.
\<close>

theorem required_check:
  assumes "req \<noteq> []"
  shows "(\<not> set req \<subseteq> fst ` set kvs \<longrightarrow>
            validateSchema (JObject kvs) (ObjectSchema props (Some req))
              = Inl (MissingRequiredField req))
         \<and> (set req \<subseteq> fst ` set kvs
              \<and> validateSchema (JObject kvs) (ObjectSchema props (Some req))
                  = Inl (MissingRequiredField r) \<longrightarrow>
            (\<exists>key schemaType. key \<in> fst ` set kvs \<and> map_of props key = Some schemaType
               \<and> validateSchema (get_member (JObject kvs) key) schemaType
                   = Inl (MissingRequiredField r)))"
proof (intro conjI impI)
  assume "\<not> set req \<subseteq> fst ` set kvs"
  with assms show "validateSchema (JObject kvs) (ObjectSchema props (Some req))
      = Inl (MissingRequiredField req)"
    by (simp add: validate_mapping)
next
  assume a: "set req \<subseteq> fst ` set kvs
    \<and> validateSchema (JObject kvs) (ObjectSchema props (Some req)) = Inl (MissingRequiredField r)"
  then have present: "set req \<subseteq> fst ` set kvs"
    and result: "validateSchema (JObject kvs) (ObjectSchema props (Some req))
      = Inl (MissingRequiredField r)"
    by simp_all
  from result present
  have "forEach (map fst kvs) (validate_key props (JObject kvs)) = Inl (MissingRequiredField r)"
    by (simp add: validate_mapping)
  then obtain key where key: "key \<in> set (map fst kvs)"
    and fails: "validate_key props (JObject kvs) key = Inl (MissingRequiredField r)"
    by (blast dest: forEach_failure_member)
  from fails obtain schemaType where "get_prop props key = OwnSchema schemaType"
    and "validateSchema (get_member (JObject kvs) key) schemaType = Inl (MissingRequiredField r)"
    by (auto simp: validate_key_def split: prop_lookup.splits dest: unknown_key_error_cases)
  with key show "\<exists>key schemaType. key \<in> fst ` set kvs \<and> map_of props key = Some schemaType
      \<and> validateSchema (get_member (JObject kvs) key) schemaType = Inl (MissingRequiredField r)"
    by (auto simp: get_prop_OwnSchema)
qed

theorem required_check_witness:
  "[''name''] \<noteq> []
   \<and> \<not> set [''name''] \<subseteq> fst ` set ([] :: (string \<times> jsvalue) list)
   \<and> validateSchema (JObject []) (ObjectSchema [(''name'', StringSchema None)] (Some [''name'']))
       = Inl (MissingRequiredField [''name''])
   \<and> \<not> set [''name''] \<subseteq> fst ` set [(''hello'', JString ''world'')]
   \<and> validateSchema (JObject [(''hello'', JString ''world'')]) (ObjectSchema [] (Some [''name'']))
       = Inl (MissingRequiredField [''name''])
   \<and> set [''a''] \<subseteq> fst ` set [(''a'', JObject [])]
   \<and> validateSchema (JObject [(''a'', JObject [])])
        (ObjectSchema [(''a'', ObjectSchema [] (Some [''a'']))] (Some [''a'']))
       = Inl (MissingRequiredField [''a''])
   \<and> (\<exists>key schemaType. key \<in> fst ` set [(''a'', JObject [])]
         \<and> map_of [(''a'', ObjectSchema [] (Some [''a'']))] key = Some schemaType
         \<and> validateSchema (get_member (JObject [(''a'', JObject [])]) key) schemaType
             = Inl (MissingRequiredField [''a'']))"
proof -
  have nonempty: "[''name''] \<noteq> []" and nonempty': "[''a''] \<noteq> []"
    by simp_all
  have missing1: "\<not> set [''name''] \<subseteq> fst ` set ([] :: (string \<times> jsvalue) list)" by simp
  have missing2: "\<not> set [''name''] \<subseteq> fst ` set [(''hello'', JString ''world'')]" by simp
  have present: "set [''a''] \<subseteq> fst ` set [(''a'', JObject [])]" by simp
  have nested: "validateSchema (JObject [(''a'', JObject [])])
      (ObjectSchema [(''a'', ObjectSchema [] (Some [''a'']))] (Some [''a'']))
      = Inl (MissingRequiredField [''a''])"
    by (simp add: eval_simps)
  from required_check [OF nonempty, where kvs = "[]" and props = "[(''name'', StringSchema None)]"]
    missing1
  have "validateSchema (JObject []) (ObjectSchema [(''name'', StringSchema None)] (Some [''name'']))
      = Inl (MissingRequiredField [''name''])"
    by blast
  moreover
  from required_check [OF nonempty, where kvs = "[(''hello'', JString ''world'')]" and props = "[]"]
    missing2
  have "validateSchema (JObject [(''hello'', JString ''world'')]) (ObjectSchema [] (Some [''name'']))
      = Inl (MissingRequiredField [''name''])"
    by blast
  moreover
  from required_check [OF nonempty', where kvs = "[(''a'', JObject [])]"
      and props = "[(''a'', ObjectSchema [] (Some [''a'']))]" and r = "[''a'']"]
    present nested
  have "\<exists>key schemaType. key \<in> fst ` set [(''a'', JObject [])]
      \<and> map_of [(''a'', ObjectSchema [] (Some [''a'']))] key = Some schemaType
      \<and> validateSchema (get_member (JObject [(''a'', JObject [])]) key) schemaType
          = Inl (MissingRequiredField [''a''])"
    by blast
  ultimately show ?thesis
    using missing1 missing2 present nested by simp
qed

section \<open>The object check: closed schemas\<close>

text \<open>
  C3. The specification states that a value with a key that has no entry in \<^verbatim>\<open>properties\<close> fails with
  \<open>UnknownProperty\<close>. The keys are handled in one pass, in enumeration order, and the
  pass ends at the first failure: when a key enumerated before the unknown one has a
  value that fails its sub-schema, that nested failure is the outcome.
\<close>

theorem closed_object_schema_counterexample:
  "validateSchema (JObject [(''name'', JNumber 5), (''hello'', JString ''world'')])
     (ObjectSchema [(''name'', StringSchema None)] None)
     = Inl (TypeMismatch ''number'' ''string'')
   \<and> ''hello'' \<in> fst ` set [(''name'', JNumber 5), (''hello'', JString ''world'')]
   \<and> map_of [(''name'', StringSchema None)] ''hello'' = None"
  by (simp add: eval_simps)

text \<open>
  C3, as the code has it. For a mapping value that passes the type gate and the
  required-field test, the keys are handled in enumeration order and the first failure
  is the outcome:
  \<^item> validation succeeds exactly when every key of the value has an entry in
    \<^verbatim>\<open>properties\<close> and the member at that key validates against it; so a value with a key
    that has no entry in \<^verbatim>\<open>properties\<close> fails, it never succeeds;
  \<^item> when the members at all keys before the \<open>i\<close>-th validate, a failure of the member at
    the \<open>i\<close>-th key is propagated unchanged;
  \<^item> when the members at all keys before the \<open>i\<close>-th validate and the \<open>i\<close>-th key has no
    entry in \<^verbatim>\<open>properties\<close>, the outcome is \<open>UnknownProperty\<close> for that key, provided the
    key is not the name of a member of \<^verbatim>\<open>Object.prototype\<close> and \<^verbatim>\<open>properties\<close> has no entry
    named \<^verbatim>\<open>toString\<close>;
  \<^item> in particular, under the same two provisos, a value whose first key has no entry in
    \<^verbatim>\<open>properties\<close> fails with \<open>UnknownProperty\<close> for that key.
\<close>

theorem closed_object_schema:
  assumes "\<forall>r. req = Some r \<longrightarrow> set r \<subseteq> fst ` set kvs"
  shows "(validateSchema (JObject kvs) (ObjectSchema props req) = Inr () \<longleftrightarrow>
            (\<forall>key\<in>fst ` set kvs. \<exists>schemaType. map_of props key = Some schemaType
               \<and> validateSchema (get_member (JObject kvs) key) schemaType = Inr ()))
         \<and> ((\<exists>key\<in>fst ` set kvs. map_of props key = None) \<longrightarrow>
              (\<exists>e'. validateSchema (JObject kvs) (ObjectSchema props req) = Inl e'))
         \<and> (i < length kvs
              \<and> (\<forall>j<i. \<exists>schemaType. map_of props (fst (kvs ! j)) = Some schemaType
                    \<and> validateSchema (get_member (JObject kvs) (fst (kvs ! j))) schemaType = Inr ())
            \<longrightarrow>
              (map_of props (fst (kvs ! i)) = Some schemaType
                 \<and> validateSchema (get_member (JObject kvs) (fst (kvs ! i))) schemaType = Inl e
               \<longrightarrow> validateSchema (JObject kvs) (ObjectSchema props req) = Inl e)
              \<and> (map_of props (fst (kvs ! i)) = None \<and> fst (kvs ! i) \<notin> set Object_prototype_keys
                 \<and> map_of props ''toString'' = None
               \<longrightarrow> validateSchema (JObject kvs) (ObjectSchema props req)
                     = Inl (UnknownProperty (fst (kvs ! i)))))
         \<and> (kvs \<noteq> [] \<and> map_of props (fst (hd kvs)) = None
              \<and> fst (hd kvs) \<notin> set Object_prototype_keys \<and> map_of props ''toString'' = None
            \<longrightarrow> validateSchema (JObject kvs) (ObjectSchema props req)
                  = Inl (UnknownProperty (fst (hd kvs))))"
proof -
  let ?data = "JObject kvs"
  let ?f = "validate_key props ?data"
  have loop: "validateSchema ?data (ObjectSchema props req) = forEach (map fst kvs) ?f"
    using assms by (cases req) (auto simp: validate_mapping)
  have key_ok: "?f key = Inr () \<longleftrightarrow>
      (\<exists>schemaType. map_of props key = Some schemaType
         \<and> validateSchema (get_member ?data key) schemaType = Inr ())" for key
    by (cases "get_prop props key")
      (auto simp: validate_key_def get_prop_def unknown_key_error_fails
        split: option.splits if_splits)
  have success: "forEach (map fst kvs) ?f = Inr () \<longleftrightarrow>
      (\<forall>key\<in>fst ` set kvs. \<exists>schemaType. map_of props key = Some schemaType
         \<and> validateSchema (get_member ?data key) schemaType = Inr ())"
    by (simp add: forEach_Inr_iff key_ok)
  have failure: "\<exists>e'. forEach (map fst kvs) ?f = Inl e'"
    if "\<exists>key\<in>fst ` set kvs. map_of props key = None"
  proof (cases "forEach (map fst kvs) ?f")
    case (Inl e')
    then show ?thesis by blast
  next
    case (Inr u)
    then have "forEach (map fst kvs) ?f = Inr ()" by simp
    with success that show ?thesis by force
  qed
  have first: "forEach (map fst kvs) ?f = Inl e'"
    if i: "i < length kvs"
      and before: "\<forall>j<i. \<exists>schemaType. map_of props (fst (kvs ! j)) = Some schemaType
        \<and> validateSchema (get_member ?data (fst (kvs ! j))) schemaType = Inr ()"
      and here: "?f (fst (kvs ! i)) = Inl e'" for i e'
  proof (rule forEach_first_failure [where i = i])
    show "i < length (map fst kvs)" using i by simp
    show "\<forall>j<i. ?f (map fst kvs ! j) = Inr ()"
      using i before by (simp add: key_ok)
    show "?f (map fst kvs ! i) = Inl e'"
      using i here by simp
  qed
  have nested: "?f key = Inl e"
    if "map_of props key = Some schemaType"
      and "validateSchema (get_member ?data key) schemaType = Inl e" for key
    using that by (simp add: validate_key_def get_prop_def)
  have unknown: "?f key = Inl (UnknownProperty key)"
    if "map_of props key = None" and "key \<notin> set Object_prototype_keys"
      and "map_of props ''toString'' = None" for key
    using that by (simp add: validate_key_def get_prop_def unknown_key_error_plain)
  have head: "forEach (map fst kvs) ?f = Inl (UnknownProperty (fst (hd kvs)))"
    if "kvs \<noteq> []" and "map_of props (fst (hd kvs)) = None"
      and "fst (hd kvs) \<notin> set Object_prototype_keys" and "map_of props ''toString'' = None"
  proof (rule first [where i = 0])
    show "0 < length kvs" using that(1) by simp
    show "\<forall>j<0. \<exists>schemaType. map_of props (fst (kvs ! j)) = Some schemaType
        \<and> validateSchema (get_member ?data (fst (kvs ! j))) schemaType = Inr ()"
      by simp
    show "?f (fst (kvs ! 0)) = Inl (UnknownProperty (fst (hd kvs)))"
      using that by (simp add: hd_conv_nth unknown)
  qed
  show ?thesis
    unfolding loop
  proof (intro conjI)
    show "forEach (map fst kvs) ?f = Inr () \<longleftrightarrow>
      (\<forall>key\<in>fst ` set kvs. \<exists>schemaType. map_of props key = Some schemaType
         \<and> validateSchema (get_member ?data key) schemaType = Inr ())"
      by (rule success)
    show "(\<exists>key\<in>fst ` set kvs. map_of props key = None) \<longrightarrow>
        (\<exists>e'. forEach (map fst kvs) ?f = Inl e')"
      using failure by blast
    show "i < length kvs
        \<and> (\<forall>j<i. \<exists>schemaType. map_of props (fst (kvs ! j)) = Some schemaType
              \<and> validateSchema (get_member ?data (fst (kvs ! j))) schemaType = Inr ())
      \<longrightarrow>
        (map_of props (fst (kvs ! i)) = Some schemaType
           \<and> validateSchema (get_member ?data (fst (kvs ! i))) schemaType = Inl e
         \<longrightarrow> forEach (map fst kvs) ?f = Inl e)
        \<and> (map_of props (fst (kvs ! i)) = None \<and> fst (kvs ! i) \<notin> set Object_prototype_keys
           \<and> map_of props ''toString'' = None
         \<longrightarrow> forEach (map fst kvs) ?f = Inl (UnknownProperty (fst (kvs ! i))))"
      using first nested unknown by blast
    show "kvs \<noteq> [] \<and> map_of props (fst (hd kvs)) = None
        \<and> fst (hd kvs) \<notin> set Object_prototype_keys \<and> map_of props ''toString'' = None
      \<longrightarrow> forEach (map fst kvs) ?f = Inl (UnknownProperty (fst (hd kvs)))"
      using head by blast
  qed
qed

theorem closed_object_schema_witness:
  "set [''name''] \<subseteq> fst ` set [(''name'', JString ''Kevin''), (''age'', JNumber 5),
       (''hello'', JString ''world'')]
   \<and> map_of [(''name'', StringSchema None), (''age'', NumberSchema)] ''hello'' = None
   \<and> ''hello'' \<notin> set Object_prototype_keys
   \<and> map_of [(''name'', StringSchema None), (''age'', NumberSchema)] ''toString'' = None
   \<and> validateSchema
        (JObject [(''name'', JString ''Kevin''), (''age'', JNumber 5), (''hello'', JString ''world'')])
        (ObjectSchema [(''name'', StringSchema None), (''age'', NumberSchema)] (Some [''name'']))
       = Inl (UnknownProperty ''hello'')
   \<and> (\<exists>e'. validateSchema
        (JObject [(''name'', JString ''Kevin''), (''age'', JNumber 5), (''hello'', JString ''world'')])
        (ObjectSchema [(''name'', StringSchema None), (''age'', NumberSchema)] (Some [''name'']))
       = Inl e')
   \<and> validateSchema
        (JObject [(''name'', JString ''Kevin''), (''age'', JString ''old''),
          (''hello'', JString ''world'')])
        (ObjectSchema [(''name'', StringSchema None), (''age'', NumberSchema)]
          (Some [''name'', ''age'']))
       = Inl (TypeMismatch ''string'' ''number'')
   \<and> validateSchema (JObject [(''name'', JString ''Kevin''), (''age'', JNumber 5)])
        (ObjectSchema [(''name'', StringSchema None), (''age'', NumberSchema)] (Some [''name'']))
       = Inr ()
   \<and> validateSchema (JObject [(''hello'', JString ''world''), (''name'', JString ''Kevin'')])
        (ObjectSchema [(''name'', StringSchema None), (''age'', NumberSchema)] (Some [''name'']))
       = Inl (UnknownProperty ''hello'')"
proof -
  let ?props = "[(''name'', StringSchema None), (''age'', NumberSchema)]"
  let ?extra = "[(''name'', JString ''Kevin''), (''age'', JNumber 5), (''hello'', JString ''world'')]"
  let ?wrong = "[(''name'', JString ''Kevin''), (''age'', JString ''old''),
    (''hello'', JString ''world'')]"
  let ?good = "[(''name'', JString ''Kevin''), (''age'', JNumber 5)]"
  let ?first = "[(''hello'', JString ''world''), (''name'', JString ''Kevin'')]"
  have required_extra: "\<forall>r. Some [''name''] = Some r \<longrightarrow> set r \<subseteq> fst ` set ?extra"
    and required_wrong: "\<forall>r. Some [''name'', ''age''] = Some r \<longrightarrow> set r \<subseteq> fst ` set ?wrong"
    and required_good: "\<forall>r. Some [''name''] = Some r \<longrightarrow> set r \<subseteq> fst ` set ?good"
    and required_first: "\<forall>r. Some [''name''] = Some r \<longrightarrow> set r \<subseteq> fst ` set ?first"
    by simp_all
  have present: "set [''name''] \<subseteq> fst ` set ?extra" by simp
  have absent: "map_of ?props ''hello'' = None" by simp
  have not_inherited: "''hello'' \<notin> set Object_prototype_keys"
    by (simp add: Object_prototype_keys_def)
  have convertible: "map_of ?props ''toString'' = None" by simp
  have name_entry: "map_of ?props ''name'' = Some (StringSchema None)"
    and age_entry: "map_of ?props ''age'' = Some NumberSchema"
    by simp_all

  have extra_at: "(2::nat) < length ?extra" "fst (?extra ! 2) = ''hello''"
    by simp_all
  have extra_before: "\<forall>j<2. \<exists>schemaType. map_of ?props (fst (?extra ! j)) = Some schemaType
      \<and> validateSchema (get_member (JObject ?extra) (fst (?extra ! j))) schemaType = Inr ()"
    by (simp add: numeral_2_eq_2 All_less_Suc eval_simps)
  from closed_object_schema [OF required_extra, where props = ?props and i = 2]
    extra_at extra_before absent not_inherited convertible
  have unknown: "validateSchema (JObject ?extra) (ObjectSchema ?props (Some [''name'']))
      = Inl (UnknownProperty ''hello'')"
    by simp

  have extra_key: "\<exists>key\<in>fst ` set ?extra. map_of ?props key = None"
    by simp
  from closed_object_schema [OF required_extra, where props = ?props] extra_key
  have fails: "\<exists>e'. validateSchema (JObject ?extra) (ObjectSchema ?props (Some [''name''])) = Inl e'"
    by blast

  have wrong_at: "(1::nat) < length ?wrong" "fst (?wrong ! 1) = ''age''"
    by simp_all
  have wrong_before: "\<forall>j<1. \<exists>schemaType. map_of ?props (fst (?wrong ! j)) = Some schemaType
      \<and> validateSchema (get_member (JObject ?wrong) (fst (?wrong ! j))) schemaType = Inr ()"
    by (simp add: eval_simps)
  have wrong_here: "validateSchema (get_member (JObject ?wrong) ''age'') NumberSchema
      = Inl (TypeMismatch ''string'' ''number'')"
    by (simp add: eval_simps)
  from closed_object_schema [OF required_wrong, where props = ?props and i = 1
      and schemaType = NumberSchema and e = "TypeMismatch ''string'' ''number''"]
    wrong_at wrong_before age_entry wrong_here
  have nested: "validateSchema (JObject ?wrong) (ObjectSchema ?props (Some [''name'', ''age'']))
      = Inl (TypeMismatch ''string'' ''number'')"
    by simp

  have good_all: "\<forall>key\<in>fst ` set ?good. \<exists>schemaType. map_of ?props key = Some schemaType
      \<and> validateSchema (get_member (JObject ?good) key) schemaType = Inr ()"
    by (simp add: eval_simps)
  from closed_object_schema [OF required_good, where props = ?props] good_all
  have valid: "validateSchema (JObject ?good) (ObjectSchema ?props (Some [''name''])) = Inr ()"
    by blast

  have first_key: "?first \<noteq> []" "fst (hd ?first) = ''hello''"
    by simp_all
  from closed_object_schema [OF required_first, where props = ?props]
    first_key absent not_inherited convertible
  have first: "validateSchema (JObject ?first) (ObjectSchema ?props (Some [''name'']))
      = Inl (UnknownProperty ''hello'')"
    by simp

  from present absent not_inherited convertible unknown fails nested valid first
  show ?thesis by blast
qed

text \<open>
  The two provisos are needed. A key that \<^verbatim>\<open>props[key]\<close> finds in \<^verbatim>\<open>Object.prototype\<close> only
  is not reported as unknown: line 75 takes the inherited member for a schema, and the
  recursive call fails on it at line 65. And when \<^verbatim>\<open>properties\<close> has an entry named
  \<^verbatim>\<open>toString\<close>, the message of line 77 cannot be built, and an unknown key ends in the
  runtime's \<^verbatim>\<open>TypeError\<close>. In both cases validation fails, with another error.
\<close>

lemma inherited_name_is_no_unknown_property:
  "validateSchema (JObject [(''toString'', JNumber 5)]) (ObjectSchema [] None)
     = Inl (TypeMismatch ''number'' ''undefined'')"
  by (simp add: eval_simps)

lemma own_toString_entry_is_no_unknown_property:
  "validateSchema (JObject [(''hello'', JString ''world'')])
     (ObjectSchema [(''toString'', StringSchema None)] None) = Inl HostTypeError"
  by (simp add: eval_simps)

section \<open>Termination\<close>

lemma fold_max_ge: "(a::nat) \<le> fold max xs a"
  by (induction xs arbitrary: a) (auto intro: order_trans [OF max.cobounded2])

lemma fold_max_member: "(x::nat) \<in> set xs \<Longrightarrow> x \<le> fold max xs a"
proof (induction xs arbitrary: a)
  case Nil
  then show ?case by simp
next
  case (Cons y ys)
  show ?case
  proof (cases "x = y")
    case True
    have "x \<le> max x a" by simp
    also have "\<dots> \<le> fold max ys (max x a)" by (rule fold_max_ge)
    finally show ?thesis using True by simp
  next
    case False
    with Cons show ?thesis by simp
  qed
qed

lemma schema_depth_property:
  assumes "map_of props key = Some schemaType"
  shows "schema_depth schemaType < schema_depth (ObjectSchema props req)"
proof -
  from assms have "(key, schemaType) \<in> set props" by (rule map_of_SomeD)
  then have "schema_depth schemaType \<in> set (map (\<lambda>(key, schemaType). schema_depth schemaType) props)"
    by force
  then show ?thesis by (simp add: fold_max_member less_Suc_eq_le)
qed

lemma validate_fuel_enough:
  "schema_depth schema < fuel \<Longrightarrow>
     validate_fuel fuel data schema = Some (SchemaService_validate data schema)"
proof (induction fuel arbitrary: data schema)
  case 0
  then show ?case by simp
next
  case (Suc fuel)
  show ?case
  proof (cases schema)
    case (StringSchema e)
    then show ?thesis
      by (simp add: getSchemaInstance_def SchemaService_validate.simps)
  next
    case NumberSchema
    then show ?thesis
      by (simp add: getSchemaInstance_def SchemaService_validate.simps)
  next
    case BooleanSchema
    then show ?thesis
      by (simp add: getSchemaInstance_def SchemaService_validate.simps)
  next
    case (ObjectSchema props req)
    have call: "validate_fuel fuel (get_member data key) schemaType
        = Some (SchemaService_validate (get_member data key) schemaType)"
      if "get_prop props key = OwnSchema schemaType" for key schemaType
    proof -
      from that have "map_of props key = Some schemaType"
        by (simp add: get_prop_OwnSchema)
      then have "schema_depth schemaType < schema_depth schema"
        unfolding ObjectSchema by (rule schema_depth_property)
      with Suc.prems have "schema_depth schemaType < fuel" by simp
      then show ?thesis by (rule Suc.IH)
    qed
    have budget: "fuel \<noteq> 0"
      using Suc.prems unfolding ObjectSchema by simp
    have loop: "forEach_fuel dataKeys (\<lambda>key.
          (case get_prop props key of
             OwnSchema schemaType \<Rightarrow> validate_fuel fuel (get_member data key) schemaType
           | Inherited \<Rightarrow>
               if fuel = 0 then None
               else Some (Inl (TypeMismatch (typeof (get_member data key)) ''undefined''))
           | Undefined \<Rightarrow> Some (unknown_key_error props key)))
        = Some (forEach dataKeys (\<lambda>key.
          (case get_prop props key of
             OwnSchema schemaType \<Rightarrow> SchemaService_validate (get_member data key) schemaType
           | Inherited \<Rightarrow> Inl (TypeMismatch (typeof (get_member data key)) ''undefined'')
           | Undefined \<Rightarrow> unknown_key_error props key)))" for dataKeys
      by (rule forEach_fuel_total) (simp add: call budget split: prop_lookup.splits)
    show ?thesis
      unfolding ObjectSchema
      by (simp add: getSchemaInstance_def validate_Object loop split: option.splits
          cong: prop_lookup.case_cong)
  next
    case (ArraySchema itemSchema)
    have call: "validate_fuel fuel datum itemSchema = Some (SchemaService_validate datum itemSchema)"
      for datum
      using Suc.prems unfolding ArraySchema by (intro Suc.IH) simp
    have loop: "forEach_fuel xs (\<lambda>datum. validate_fuel fuel datum itemSchema)
        = Some (forEach xs (\<lambda>datum. SchemaService_validate datum itemSchema))" for xs
      by (rule forEach_fuel_total) (simp add: call)
    show ?thesis
      unfolding ArraySchema
      by (simp add: getSchemaInstance_def validate_Array loop)
  qed
qed

lemma value_depth_member:
  assumes "key \<in> set (map fst (own_entries data))" and "typeof data = ''object''"
  shows "value_depth (get_member data key) < value_depth data"
proof -
  from assms(1) obtain v where v: "map_of (own_entries data) key = Some v"
    by (cases "map_of (own_entries data) key") (auto simp: map_of_eq_None_iff)
  then have entry: "(key, v) \<in> set (own_entries data)"
    by (rule map_of_SomeD)
  have "value_depth v < value_depth data"
  proof (cases data)
    case (JObject kvs)
    with entry have "value_depth v \<in> set (map (\<lambda>(key, v). value_depth v) kvs)"
      by force
    then show ?thesis
      unfolding JObject by (simp add: fold_max_member less_Suc_eq_le)
  next
    case (JArray xs)
    with entry have "v \<in> set xs"
      by (auto dest: set_zip_rightD)
    then show ?thesis
      unfolding JArray by (simp add: fold_max_member less_Suc_eq_le)
  qed (use assms(2) entry in simp_all)
  with v show ?thesis by (simp add: get_member_def)
qed

lemma value_depth_element:
  "datum \<in> set (elements data) \<Longrightarrow> value_depth datum < value_depth data"
  by (cases data) (simp_all add: fold_max_member less_Suc_eq_le)

lemma validate_fuel_enough_value:
  "value_depth data < fuel \<Longrightarrow>
     validate_fuel fuel data schema = Some (SchemaService_validate data schema)"
proof (induction fuel arbitrary: data schema)
  case 0
  then show ?case by simp
next
  case (Suc fuel)
  show ?case
  proof (cases schema)
    case (StringSchema e)
    then show ?thesis
      by (simp add: getSchemaInstance_def SchemaService_validate.simps)
  next
    case NumberSchema
    then show ?thesis
      by (simp add: getSchemaInstance_def SchemaService_validate.simps)
  next
    case BooleanSchema
    then show ?thesis
      by (simp add: getSchemaInstance_def SchemaService_validate.simps)
  next
    case (ObjectSchema props req)
    show ?thesis
    proof (cases "typeof data = ''object'' \<and> Object_keys data \<noteq> None")
      case False
      then show ?thesis
        unfolding ObjectSchema
        by (auto simp: getSchemaInstance_def validate_Object)
    next
      case True
      then have keys: "Object_keys data = Some (map fst (own_entries data))"
        by (cases data) simp_all
      have call: "validate_fuel fuel (get_member data key) schemaType
          = Some (SchemaService_validate (get_member data key) schemaType)"
        if "key \<in> set (map fst (own_entries data))" for key schemaType
      proof -
        from that True have "value_depth (get_member data key) < value_depth data"
          by (simp add: value_depth_member)
        with Suc.prems have "value_depth (get_member data key) < fuel" by simp
        then show ?thesis by (rule Suc.IH)
      qed
      have budget: "fuel \<noteq> 0" if "key \<in> set (map fst (own_entries data))" for key
        using value_depth_member [OF that] True Suc.prems by simp
      have loop: "forEach_fuel (map fst (own_entries data)) (\<lambda>key.
            (case get_prop props key of
               OwnSchema schemaType \<Rightarrow> validate_fuel fuel (get_member data key) schemaType
             | Inherited \<Rightarrow>
                 if fuel = 0 then None
                 else Some (Inl (TypeMismatch (typeof (get_member data key)) ''undefined''))
             | Undefined \<Rightarrow> Some (unknown_key_error props key)))
          = Some (forEach (map fst (own_entries data)) (\<lambda>key.
            (case get_prop props key of
               OwnSchema schemaType \<Rightarrow> SchemaService_validate (get_member data key) schemaType
             | Inherited \<Rightarrow> Inl (TypeMismatch (typeof (get_member data key)) ''undefined'')
             | Undefined \<Rightarrow> unknown_key_error props key)))"
        by (rule forEach_fuel_total) (simp add: call budget split: prop_lookup.splits)
      show ?thesis
        unfolding ObjectSchema using True
        by (simp add: getSchemaInstance_def validate_Object keys loop cong: prop_lookup.case_cong)
    qed
  next
    case (ArraySchema itemSchema)
    have call: "validate_fuel fuel datum itemSchema = Some (SchemaService_validate datum itemSchema)"
      if "datum \<in> set (elements data)" for datum
    proof -
      from that have "value_depth datum < value_depth data"
        by (rule value_depth_element)
      with Suc.prems have "value_depth datum < fuel" by simp
      then show ?thesis by (rule Suc.IH)
    qed
    have loop: "forEach_fuel (elements data) (\<lambda>datum. validate_fuel fuel datum itemSchema)
        = Some (forEach (elements data) (\<lambda>datum. SchemaService_validate datum itemSchema))"
      by (rule forEach_fuel_total) (simp add: call)
    show ?thesis
      unfolding ArraySchema
      by (simp add: getSchemaInstance_def validate_Array loop)
  qed
qed

text \<open>
  C8. A schema is a finite tree and so is a value. Every recursive call of the engine is
  on a sub-schema (the \<^verbatim>\<open>items\<close> schema, or an entry of \<^verbatim>\<open>properties\<close>) and on a sub-value
  (an element, or the member at a key), so a call stack deeper than the schema, or deeper
  than the value, is never needed: with any budget above one of the two depths the
  engine returns, and what it returns is the outcome of the engine, a success or one
  error.
\<close>

theorem validate_terminates:
  "schema_depth schema < fuel \<or> value_depth data < fuel \<Longrightarrow>
     validate_fuel fuel data schema = Some (validateSchema data schema)
     \<and> (validateSchema data schema = Inr () \<or> (\<exists>e. validateSchema data schema = Inl e))"
  by (cases "validateSchema data schema")
    (auto simp: validate_fuel_enough validate_fuel_enough_value validateSchema_def)

theorem validate_terminates_witness:
  "schema_depth (ArraySchema (ObjectSchema [(''a'', NumberSchema)] None)) < 3
   \<and> validate_fuel 3 (JArray [JObject [(''a'', JNumber 5)], JObject [(''a'', JString ''hello'')]])
        (ArraySchema (ObjectSchema [(''a'', NumberSchema)] None))
       = Some (validateSchema (JArray [JObject [(''a'', JNumber 5)], JObject [(''a'', JString ''hello'')]])
           (ArraySchema (ObjectSchema [(''a'', NumberSchema)] None)))
   \<and> validate_fuel 2 (JArray [JObject [(''a'', JNumber 5)], JObject [(''a'', JString ''hello'')]])
        (ArraySchema (ObjectSchema [(''a'', NumberSchema)] None)) = None
   \<and> value_depth (JNumber 5) < 1
   \<and> validate_fuel 1 (JNumber 5) (ArraySchema (ObjectSchema [(''a'', NumberSchema)] None))
       = Some (validateSchema (JNumber 5) (ArraySchema (ObjectSchema [(''a'', NumberSchema)] None)))"
proof -
  let ?schema = "ArraySchema (ObjectSchema [(''a'', NumberSchema)] None)"
  let ?data = "JArray [JObject [(''a'', JNumber 5)], JObject [(''a'', JString ''hello'')]]"
  have by_schema: "schema_depth ?schema < 3"
    by simp
  have by_value: "value_depth (JNumber 5) < 1"
    by simp
  have short: "validate_fuel 2 ?data ?schema = None"
    by (simp add: numeral_2_eq_2 getSchemaInstance_def get_prop_def get_member_def isInEvery_def)
  from validate_terminates [of ?schema 3 ?data] by_schema
  have deep: "validate_fuel 3 ?data ?schema = Some (validateSchema ?data ?schema)"
    by blast
  from validate_terminates [of ?schema 1 "JNumber 5"] by_value
  have flat: "validate_fuel 1 (JNumber 5) ?schema = Some (validateSchema (JNumber 5) ?schema)"
    by blast
  from by_schema by_value short deep flat show ?thesis by blast
qed

end
